theory Spec2Isabelle
  imports Complex_Main
begin

section \<open>SpeakerUp: device enumeration and volume control\<close>

text \<open>
  The class \<open>SpeakerUp\<close> of \<open>src/a.py\<close> holds one field, \<open>self.devices\<close>, and three
  methods that matter here: \<open>get_audio_devices\<close> (with its fallback), \<open>list_devices\<close> and
  \<open>set_volume\<close>. Each method is modelled as a function from the field's value to a
  \<open>result\<close>: how the call ended, the field's value afterwards, the external processes it
  started and the messages it printed.
\<close>

subsection \<open>Values\<close>

text \<open>What \<open>json.loads\<close> can return. An object is an association list read with \<open>map_of\<close>.\<close>

datatype json =
    JNull
  | JBool bool
  | JInt int
  | JStr string
  | JList "json list"
  | JObj "(string \<times> json) list"

text \<open>Python's truth value of a parsed value.\<close>

fun truthy :: "json \<Rightarrow> bool" where
  "truthy JNull = False"
| "truthy (JBool b) = b"
| "truthy (JInt n) = (n \<noteq> 0)"
| "truthy (JStr s) = (s \<noteq> [])"
| "truthy (JList xs) = (xs \<noteq> [])"
| "truthy (JObj kvs) = (kvs \<noteq> [])"

text \<open>The exceptions that the modelled code can meet.\<close>

datatype py_exception =
    CalledProcessError string
  | JSONDecodeError
  | FileNotFoundError
  | TimeoutExpired
  | IndexError
  | KeyError
  | TypeError
  | AttributeError

text \<open>
  A method call returns a value, lets an exception escape, or never comes back because
  it waits for an external process that does not end.
\<close>

datatype outcome = Returned bool | Raised py_exception | Blocked

subsection \<open>The external collaborator\<close>

text \<open>
  The three PowerShell scripts that the code runs. The two volume scripts are f-strings
  with holes for the device index and for \<open>volume / 100\<close>; the constructors carry the
  values that fill the holes. Python's true division is idealised as division of reals.
\<close>

datatype ps_command =
    ListPlaybackCmd
  | SetIndexVolumeCmd int real
  | SetDefaultVolumeCmd real

text \<open>
  What a started process does: it ends with a return code, standard output and standard
  error; or the executable does not exist; or it never ends.
\<close>

datatype process = Exits int string string | Missing | Hangs

text \<open>The arguments of one \<open>subprocess.run\<close> call that matter.\<close>

record invocation =
  command :: ps_command
  timeout :: "nat option"
  check :: bool

datatype run_outcome = Completed string | Throws py_exception | NoReturn

text \<open>
  \<open>subprocess.run\<close> as Python documents it: a missing executable raises
  \<open>FileNotFoundError\<close>; with \<open>check=True\<close> a non-zero return code raises
  \<open>CalledProcessError\<close>; a process that does not end is waited for without limit
  unless a timeout was given, in which case \<open>TimeoutExpired\<close> is raised.
\<close>

fun subprocess_run :: "invocation \<Rightarrow> process \<Rightarrow> run_outcome" where
  "subprocess_run call Missing = Throws FileNotFoundError"
| "subprocess_run call Hangs =
     (case timeout call of None \<Rightarrow> NoReturn | Some t \<Rightarrow> Throws TimeoutExpired)"
| "subprocess_run call (Exits rc out err) =
     (if check call \<and> rc \<noteq> 0 then Throws (CalledProcessError err) else Completed out)"

text \<open>
  Both call sites are
  \<open>subprocess.run(["powershell", "-Command", ps_command], capture_output=True, text=True, check=True)\<close>:
  no timeout argument.
\<close>

definition powershell :: "ps_command \<Rightarrow> invocation" where
  "powershell c = \<lparr>command = c, timeout = None, check = True\<rparr>"

subsection \<open>Python's subscripting and \<open>dict.get\<close>\<close>

text \<open>
  List subscripting \<open>xs[i]\<close>. Python accepts \<open>-len(xs) <= i < len(xs)\<close> and reads a
  negative \<open>i\<close> as \<open>len(xs) + i\<close>; every other index raises \<open>IndexError\<close>.
\<close>

definition py_index :: "'a list \<Rightarrow> int \<Rightarrow> py_exception + 'a" where
  "py_index xs i =
     (if 0 \<le> i \<and> i < int (length xs) then Inr (xs ! nat i)
      else if i < 0 \<and> - int (length xs) \<le> i then Inr (xs ! nat (int (length xs) + i))
      else Inl IndexError)"

text \<open>\<open>v[key]\<close> with a string key: only an object has string keys.\<close>

fun py_subscript :: "json \<Rightarrow> string \<Rightarrow> py_exception + json" where
  "py_subscript (JObj kvs) k =
     (case map_of kvs k of None \<Rightarrow> Inl KeyError | Some v \<Rightarrow> Inr v)"
| "py_subscript v k = Inl TypeError"

text \<open>\<open>v.get(key, default)\<close>: only an object has the method.\<close>

fun py_get :: "json \<Rightarrow> string \<Rightarrow> json \<Rightarrow> py_exception + json" where
  "py_get (JObj kvs) k d = (case map_of kvs k of None \<Rightarrow> Inr d | Some v \<Rightarrow> Inr v)"
| "py_get v k d = Inl AttributeError"

subsection \<open>Results and messages\<close>

datatype message =
    MsgVolumeRange
  | MsgVolumeSet int json
  | MsgErrorSetting string
  | MsgHeader
  | MsgRule
  | MsgDevice nat json bool

record result =
  outcome :: outcome
  devices :: "json list"
  calls :: "invocation list"
  printed :: "message list"

subsection \<open>\<open>set_volume\<close>\<close>

text \<open>
  Lines 144 to 146: the name shown in the confirmation.
\<close>

definition device_name :: "json list \<Rightarrow> int option \<Rightarrow> py_exception + json" where
  "device_name devs device_index =
     (case device_index of
        None \<Rightarrow> Inr (JStr ''Default Device'')
      | Some i \<Rightarrow>
          if i < int (length devs)
          then (case py_index devs i of
                  Inl e \<Rightarrow> Inl e
                | Inr d \<Rightarrow> py_subscript d ''Name'')
          else Inr (JStr ''Default Device''))"

text \<open>Lines 86 to 135: the script for the target.\<close>

definition volume_command :: "int \<Rightarrow> int option \<Rightarrow> ps_command" where
  "volume_command volume device_index =
     (case device_index of
        Some i \<Rightarrow> SetIndexVolumeCmd i (real_of_int volume / 100)
      | None \<Rightarrow> SetDefaultVolumeCmd (real_of_int volume / 100))"

text \<open>
  The \<open>try\<close> block of \<open>set_volume\<close> has one handler, for \<open>CalledProcessError\<close>; any
  other exception escapes.
\<close>

fun set_volume_handler :: "json list \<Rightarrow> invocation \<Rightarrow> py_exception \<Rightarrow> result" where
  "set_volume_handler devs call (CalledProcessError err) =
     \<lparr>outcome = Returned False, devices = devs, calls = [call],
      printed = [MsgErrorSetting err]\<rparr>"
| "set_volume_handler devs call e =
     \<lparr>outcome = Raised e, devices = devs, calls = [call], printed = []\<rparr>"

definition set_volume ::
  "(ps_command \<Rightarrow> process) \<Rightarrow> json list \<Rightarrow> int \<Rightarrow> int option \<Rightarrow> result" where
  "set_volume os devs volume device_index =
     (if volume < 0 \<or> volume > 100
      then \<lparr>outcome = Returned False, devices = devs, calls = [],
            printed = [MsgVolumeRange]\<rparr>
      else
        let ps = volume_command volume device_index;
            call = powershell ps
        in case subprocess_run call (os ps) of
             NoReturn \<Rightarrow>
               \<lparr>outcome = Blocked, devices = devs, calls = [call], printed = []\<rparr>
           | Throws e \<Rightarrow> set_volume_handler devs call e
           | Completed out \<Rightarrow>
               (case device_name devs device_index of
                  Inl e \<Rightarrow> set_volume_handler devs call e
                | Inr name \<Rightarrow>
                    \<lparr>outcome = Returned True, devices = devs, calls = [call],
                     printed = [MsgVolumeSet volume name]\<rparr>))"

subsection \<open>Enumeration\<close>

text \<open>Line 56: the one entry that the fallback stores.\<close>

definition fallback_device :: json where
  "fallback_device =
     JObj [(''Index'', JInt 0), (''Name'', JStr ''Default Audio Device''),
           (''Default'', JBool True)]"

text \<open>
  \<open>_get_devices_fallback\<close>. Its \<open>try\<close> block builds a script text that is never run
  and assigns the one-entry list; no statement in it can raise, so the handler that
  prints an error and returns \<open>False\<close> is never entered.
\<close>

definition get_devices_fallback :: "json list \<Rightarrow> result" where
  "get_devices_fallback devs =
     \<lparr>outcome = Returned True, devices = [fallback_device], calls = [], printed = []\<rparr>"

text \<open>
  \<open>json.loads\<close> is a parameter \<open>loads\<close> of the model; \<open>loads s = None\<close> stands for
  \<open>JSONDecodeError\<close>.
\<close>

definition json_loads :: "(string \<Rightarrow> json option) \<Rightarrow> string \<Rightarrow> py_exception + json" where
  "json_loads loads s = (case loads s of None \<Rightarrow> Inl JSONDecodeError | Some v \<Rightarrow> Inr v)"

text \<open>Line 42: \<open>except (subprocess.CalledProcessError, json.JSONDecodeError, FileNotFoundError)\<close>.\<close>

fun enumeration_catches :: "py_exception \<Rightarrow> bool" where
  "enumeration_catches (CalledProcessError err) = True"
| "enumeration_catches JSONDecodeError = True"
| "enumeration_catches FileNotFoundError = True"
| "enumeration_catches e = False"

definition get_audio_devices_handler ::
  "json list \<Rightarrow> invocation \<Rightarrow> py_exception \<Rightarrow> result" where
  "get_audio_devices_handler devs call e =
     (if enumeration_catches e
      then (let r = get_devices_fallback devs in r\<lparr>calls := call # calls r\<rparr>)
      else \<lparr>outcome = Raised e, devices = devs, calls = [call], printed = []\<rparr>)"

text \<open>Lines 36 and 37: a parsed value that is not a list is wrapped in one.\<close>

fun as_list :: "json \<Rightarrow> json list" where
  "as_list (JList xs) = xs"
| "as_list v = [v]"

definition get_audio_devices ::
  "(string \<Rightarrow> json option) \<Rightarrow> (ps_command \<Rightarrow> process) \<Rightarrow> json list \<Rightarrow> result" where
  "get_audio_devices loads os devs =
     (let call = powershell ListPlaybackCmd
      in case subprocess_run call (os ListPlaybackCmd) of
           NoReturn \<Rightarrow>
             \<lparr>outcome = Blocked, devices = devs, calls = [call], printed = []\<rparr>
         | Throws e \<Rightarrow> get_audio_devices_handler devs call e
         | Completed out \<Rightarrow>
             (case json_loads loads out of
                Inl e \<Rightarrow> get_audio_devices_handler devs call e
              | Inr devices_data \<Rightarrow>
                  \<lparr>outcome = Returned True, devices = as_list devices_data,
                   calls = [call], printed = []\<rparr>))"

subsection \<open>\<open>list_devices\<close>\<close>

text \<open>Line 73: \<open>device.get("Default", False)\<close>, read as a truth value.\<close>

definition default_flag :: "json \<Rightarrow> py_exception + bool" where
  "default_flag device =
     (case py_get device ''Default'' (JBool False) of
        Inl e \<Rightarrow> Inl e
      | Inr v \<Rightarrow> Inr (truthy v))"

text \<open>
  Lines 72 to 74: one line per device, numbered from 1. The loop stops at the first
  entry that has no \<open>get\<close> method or no \<open>Name\<close>; the lines printed before stay printed.
\<close>

fun print_devices :: "nat \<Rightarrow> json list \<Rightarrow> message list \<times> py_exception option" where
  "print_devices i [] = ([], None)"
| "print_devices i (device # rest) =
     (case default_flag device of
        Inl e \<Rightarrow> ([], Some e)
      | Inr marker \<Rightarrow>
          (case py_subscript device ''Name'' of
             Inl e \<Rightarrow> ([], Some e)
           | Inr name \<Rightarrow>
               (case print_devices (Suc i) rest of
                  (ms, r) \<Rightarrow> (MsgDevice (i + 1) name marker # ms, r))))"

text \<open>Lines 69 to 77.\<close>

definition show_devices :: "result \<Rightarrow> result" where
  "show_devices r =
     (case print_devices 0 (devices r) of
        (ms, None) \<Rightarrow>
          r\<lparr>outcome := Returned True,
            printed := printed r @ [MsgHeader, MsgRule] @ ms @ [MsgRule]\<rparr>
      | (ms, Some e) \<Rightarrow>
          r\<lparr>outcome := Raised e, printed := printed r @ [MsgHeader, MsgRule] @ ms\<rparr>)"

definition list_devices ::
  "(string \<Rightarrow> json option) \<Rightarrow> (ps_command \<Rightarrow> process) \<Rightarrow> json list \<Rightarrow> result" where
  "list_devices loads os devs =
     (if devs = []
      then (let r = get_audio_devices loads os devs
            in case outcome r of
                 Returned ok \<Rightarrow>
                   if \<not> ok then r\<lparr>outcome := Returned False\<rparr> else show_devices r
               | Raised e \<Rightarrow> r
               | Blocked \<Rightarrow> r)
      else show_devices
             \<lparr>outcome = Returned True, devices = devs, calls = [], printed = []\<rparr>)"

subsection \<open>Readings of a device list\<close>

text \<open>A device counts as the default when line 73 would mark it.\<close>

definition is_default :: "json \<Rightarrow> bool" where
  "is_default device = (default_flag device = Inr True)"

definition default_count :: "json list \<Rightarrow> nat" where
  "default_count devs = length (filter is_default devs)"

text \<open>
  The primary path of the enumeration fails when the query ends with a non-zero return
  code, when its output does not parse, or when PowerShell is not installed.
\<close>

fun primary_path_fails :: "(string \<Rightarrow> json option) \<Rightarrow> process \<Rightarrow> bool" where
  "primary_path_fails loads (Exits rc out err) = (rc \<noteq> 0 \<or> loads out = None)"
| "primary_path_fails loads Missing = True"
| "primary_path_fails loads Hangs = False"

subsection \<open>Sample collaborators\<close>

text \<open>An operating system on which every script ends with return code 0 and no output.\<close>

definition os_healthy :: "ps_command \<Rightarrow> process" where
  "os_healthy c = Exits 0 [] []"

text \<open>One on which every script ends with return code 1 and a diagnostic.\<close>

definition os_rejecting :: "ps_command \<Rightarrow> process" where
  "os_rejecting c = Exits 1 [] ''access denied''"

text \<open>One without PowerShell, and one whose scripts never end.\<close>

definition os_absent :: "ps_command \<Rightarrow> process" where
  "os_absent c = Missing"

definition os_hangs :: "ps_command \<Rightarrow> process" where
  "os_hangs c = Hangs"

text \<open>Three outputs of the enumeration query and the values they parse to.\<close>

definition two_devices_text :: string where
  \<open>two_devices_text =
     ''[{"Index":0,"Name":"Speakers","Default":true},{"Index":1,"Name":"Headset","Default":false}]''\<close>

definition one_device_text :: string where
  \<open>one_device_text = ''{"Index":0,"Name":"Speakers","Default":true}''\<close>

definition two_defaults_text :: string where
  \<open>two_defaults_text =
     ''[{"Index":0,"Name":"Speakers","Default":true},{"Index":1,"Name":"Headset","Default":true}]''\<close>

definition speakers :: json where
  "speakers = JObj [(''Index'', JInt 0), (''Name'', JStr ''Speakers''), (''Default'', JBool True)]"

definition headset :: "bool \<Rightarrow> json" where
  "headset b = JObj [(''Index'', JInt 1), (''Name'', JStr ''Headset''), (''Default'', JBool b)]"

text \<open>
  A stand-in for \<open>json.loads\<close> that is right on these three texts and on the empty
  output, which does not parse.
\<close>

definition sample_loads :: "string \<Rightarrow> json option" where
  "sample_loads s =
     (if s = two_devices_text then Some (JList [speakers, headset False])
      else if s = one_device_text then Some speakers
      else if s = two_defaults_text then Some (JList [speakers, headset True])
      else None)"

definition os_prints :: "string \<Rightarrow> ps_command \<Rightarrow> process" where
  "os_prints out c = Exits 0 out []"

section \<open>Properties\<close>

subsection \<open>Facts about the enumeration\<close>

lemma devices_show_devices: "devices (show_devices r) = devices r"
  by (simp add: show_devices_def split: prod.split option.split)

lemma get_audio_devices_on_failure:
  assumes "primary_path_fails loads (os ListPlaybackCmd)"
  shows "get_audio_devices loads os devs =
     \<lparr>outcome = Returned True, devices = [fallback_device],
      calls = [\<lparr>command = ListPlaybackCmd, timeout = None, check = True\<rparr>], printed = []\<rparr>"
  using assms
  by (cases "os ListPlaybackCmd")
     (auto simp: get_audio_devices_def get_audio_devices_handler_def get_devices_fallback_def
        powershell_def json_loads_def split: option.split)

lemma get_audio_devices_on_success:
  assumes "os ListPlaybackCmd = Exits 0 out err" and "loads out = Some v"
  shows "get_audio_devices loads os devs =
     \<lparr>outcome = Returned True, devices = as_list v,
      calls = [\<lparr>command = ListPlaybackCmd, timeout = None, check = True\<rparr>], printed = []\<rparr>"
  using assms
  by (simp add: get_audio_devices_def powershell_def json_loads_def)

lemma get_audio_devices_on_hang:
  assumes "os ListPlaybackCmd = Hangs"
  shows "get_audio_devices loads os devs =
     \<lparr>outcome = Blocked, devices = devs,
      calls = [\<lparr>command = ListPlaybackCmd, timeout = None, check = True\<rparr>], printed = []\<rparr>"
  using assms
  by (simp add: get_audio_devices_def powershell_def)

lemma get_audio_devices_cases:
  obtains (fails) "primary_path_fails loads (os ListPlaybackCmd)"
  | (parses) out err v where "os ListPlaybackCmd = Exits 0 out err" and "loads out = Some v"
  | (hangs) "os ListPlaybackCmd = Hangs"
proof (cases "os ListPlaybackCmd")
  case (Exits rc out err)
  show ?thesis
  proof (cases "rc = 0 \<and> loads out \<noteq> None")
    case True
    then obtain v where "loads out = Some v" by auto
    with True Exits show ?thesis using parses by simp
  next
    case False
    with Exits show ?thesis using fails by auto
  qed
next
  case Missing
  then show ?thesis using fails by simp
next
  case Hangs
  then show ?thesis using hangs by simp
qed

lemma list_devices_cached:
  "devs \<noteq> [] \<Longrightarrow> list_devices loads os devs =
     show_devices \<lparr>outcome = Returned True, devices = devs, calls = [], printed = []\<rparr>"
  by (simp add: list_devices_def)

lemma default_count_fallback: "default_count [fallback_device] = 1"
  by (simp add: default_count_def is_default_def default_flag_def fallback_device_def)

subsection \<open>Facts about \<open>set_volume\<close>\<close>

lemma printed_set_volume_handler:
  "MsgVolumeRange \<notin> set (printed (set_volume_handler devs call e))"
  by (cases e) simp_all

lemma calls_set_volume_handler: "calls (set_volume_handler devs call e) = [call]"
  by (cases e) simp_all

lemma calls_set_volume:
  assumes "0 \<le> volume" and "volume \<le> 100"
  shows "calls (set_volume os devs volume device_index) =
           [powershell (volume_command volume device_index)]"
  using assms
  by (simp add: set_volume_def Let_def calls_set_volume_handler
      split: run_outcome.split sum.split)

text \<open>
  The name in the confirmation, for the targets that lines 145 and 146 handle as meant:
  no target, an index within the stored list, an index at or past its end.
\<close>

lemma device_name_absent: "device_name devs None = Inr (JStr ''Default Device'')"
  by (simp add: device_name_def)

lemma device_name_in_bounds:
  assumes "0 \<le> i" and "i < int (length devs)"
  shows "device_name devs (Some i) = py_subscript (devs ! nat i) ''Name''"
  using assms by (simp add: device_name_def py_index_def)

lemma device_name_past_end:
  assumes "int (length devs) \<le> i"
  shows "device_name devs (Some i) = Inr (JStr ''Default Device'')"
  using assms by (simp add: device_name_def)

lemma devices_set_volume_handler: "devices (set_volume_handler devs call e) = devs"
  by (cases e) simp_all

text \<open>
  C1. A volume below 0 or above 100 is rejected: \<open>set_volume\<close> returns \<open>False\<close>, prints
  the range message and starts no external process, whatever the target is.
\<close>

theorem set_volume_out_of_range:
  assumes "volume < 0 \<or> volume > 100"
  shows "outcome (set_volume os devs volume device_index) = Returned False
       \<and> calls (set_volume os devs volume device_index) = []
       \<and> printed (set_volume os devs volume device_index) = [MsgVolumeRange]"
  using assms by (simp add: set_volume_def)

theorem set_volume_out_of_range_witness:
  "((150::int) < 0 \<or> (150::int) > 100)
   \<and> outcome (set_volume os_healthy [] 150 None) = Returned False
   \<and> calls (set_volume os_healthy [] 150 None) = []
   \<and> printed (set_volume os_healthy [] 150 None) = [MsgVolumeRange]"
  using set_volume_out_of_range [of 150 os_healthy "[]" None] by simp

text \<open>
  C10. \<open>set_volume\<close> leaves \<open>self.devices\<close> as it found it, for every volume, every
  target and every way the call can end.
\<close>

theorem set_volume_keeps_devices:
  "devices (set_volume os devs volume device_index) = devs"
  by (simp add: set_volume_def Let_def devices_set_volume_handler
      split: run_outcome.split sum.split)

text \<open>
  C3. When the primary path fails (the query ends with a non-zero return code, its
  output does not parse, or PowerShell is missing), the enumeration does not fail: it
  returns \<open>True\<close> and stores exactly one device, the synthetic one, which is marked as
  default and has index 0. \<open>list_devices\<close> on an empty cache does the same.
\<close>

theorem enumeration_failure_falls_back:
  assumes "primary_path_fails loads (os ListPlaybackCmd)"
  shows "outcome (get_audio_devices loads os devs) = Returned True
       \<and> devices (get_audio_devices loads os devs) = [fallback_device]
       \<and> outcome (list_devices loads os []) = Returned True
       \<and> devices (list_devices loads os []) = [fallback_device]
       \<and> is_default fallback_device
       \<and> py_subscript fallback_device ''Index'' = Inr (JInt 0)"
proof -
  note g = get_audio_devices_on_failure [of loads os, OF assms]
  have "is_default fallback_device"
    by (simp add: is_default_def default_flag_def fallback_device_def)
  moreover have "py_subscript fallback_device ''Index'' = Inr (JInt 0)"
    by (simp add: fallback_device_def)
  moreover have "outcome (list_devices loads os []) = Returned True"
    by (simp add: list_devices_def g show_devices_def fallback_device_def default_flag_def)
  moreover have "devices (list_devices loads os []) = [fallback_device]"
    by (simp add: list_devices_def g devices_show_devices)
  ultimately show ?thesis by (simp add: g)
qed

theorem enumeration_failure_falls_back_witness:
  "primary_path_fails sample_loads (os_rejecting ListPlaybackCmd)
   \<and> devices (get_audio_devices sample_loads os_rejecting [speakers]) = [fallback_device]
   \<and> outcome (list_devices sample_loads os_rejecting []) = Returned True"
  using enumeration_failure_falls_back [of sample_loads os_rejecting "[speakers]"]
  by (simp add: os_rejecting_def)

text \<open>
  C6, as amended. The query is started without a timeout. A non-zero return code,
  output that does not parse and a missing PowerShell are treated alike: whichever of
  them happens, the enumeration gives the same result, the one-entry fallback list.
\<close>

theorem enumeration_failures_alike:
  assumes "primary_path_fails loads (os ListPlaybackCmd)"
      and "primary_path_fails loads (os' ListPlaybackCmd)"
  shows "get_audio_devices loads os devs = get_audio_devices loads os' devs'
       \<and> devices (get_audio_devices loads os devs) = [fallback_device]
       \<and> map timeout (calls (get_audio_devices loads os devs)) = [None]"
  by (simp add: get_audio_devices_on_failure [of loads os, OF assms(1)]
      get_audio_devices_on_failure [of loads os', OF assms(2)])

theorem enumeration_failures_alike_witness:
  "primary_path_fails sample_loads (os_rejecting ListPlaybackCmd)
   \<and> primary_path_fails sample_loads (os_absent ListPlaybackCmd)
   \<and> get_audio_devices sample_loads os_rejecting [] = get_audio_devices sample_loads os_absent [speakers]
   \<and> map timeout (calls (get_audio_devices sample_loads os_rejecting [])) = [None]"
  using enumeration_failures_alike [of sample_loads os_rejecting os_absent "[]" "[speakers]"]
  by (auto simp: os_rejecting_def os_absent_def)

text \<open>
  C6 as stated fails: no timeout bounds the query. On a system whose query never ends
  the enumeration never returns, and no fallback list is stored.
\<close>

theorem enumeration_unbounded_counterexample:
  "outcome (get_audio_devices sample_loads os_hangs []) = Blocked
   \<and> devices (get_audio_devices sample_loads os_hangs []) = []
   \<and> calls (get_audio_devices sample_loads os_hangs []) =
       [\<lparr>command = ListPlaybackCmd, timeout = None, check = True\<rparr>]"
  by (simp add: get_audio_devices_on_hang os_hangs_def)

text \<open>
  C4. When the query succeeds and its output parses to a single object, the stored list
  has that object as its only element and the call returns \<open>True\<close>; when the output
  parses to a list, the stored list is that list, in the same order and with the same
  default flags.
\<close>

theorem single_object_is_wrapped:
  assumes "os ListPlaybackCmd = Exits 0 out err"
  shows "(loads out = Some (JObj kvs) \<longrightarrow>
            outcome (get_audio_devices loads os devs) = Returned True
          \<and> devices (get_audio_devices loads os devs) = [JObj kvs]
          \<and> devices (list_devices loads os []) = [JObj kvs])
       \<and> (loads out = Some (JList xs) \<longrightarrow>
            outcome (get_audio_devices loads os devs) = Returned True
          \<and> devices (get_audio_devices loads os devs) = xs
          \<and> devices (list_devices loads os []) = xs
          \<and> map is_default (devices (get_audio_devices loads os devs)) = map is_default xs)"
  by (auto simp: get_audio_devices_on_success [of os out err loads, OF assms] list_devices_def devices_show_devices)

theorem single_object_is_wrapped_witness:
  "devices (get_audio_devices sample_loads (os_prints one_device_text) []) = [speakers]
   \<and> devices (list_devices sample_loads (os_prints one_device_text) []) = [speakers]
   \<and> devices (get_audio_devices sample_loads (os_prints two_devices_text) []) = [speakers, headset False]
   \<and> devices (list_devices sample_loads (os_prints two_devices_text) []) = [speakers, headset False]"
  using single_object_is_wrapped [of "os_prints one_device_text" one_device_text "[]" sample_loads
      "[(''Index'', JInt 0), (''Name'', JStr ''Speakers''), (''Default'', JBool True)]" "[]" "[]"]
    single_object_is_wrapped [of "os_prints two_devices_text" two_devices_text "[]" sample_loads
      "[]" "[]" "[speakers, headset False]"]
  by (simp add: os_prints_def sample_loads_def speakers_def two_devices_text_def one_device_text_def)

text \<open>
  C8. With the same answers from the operating system, listing the devices again gives
  the same stored list, the same printed lines and the same way of ending as the first
  listing did; and refreshing twice stores what refreshing once stores.
\<close>

theorem list_devices_repeatable:
  "devices (list_devices loads os (devices (list_devices loads os devs)))
     = devices (list_devices loads os devs)
 \<and> outcome (list_devices loads os (devices (list_devices loads os devs)))
     = outcome (list_devices loads os devs)
 \<and> printed (list_devices loads os (devices (list_devices loads os devs)))
     = printed (list_devices loads os devs)
 \<and> get_audio_devices loads os (devices (get_audio_devices loads os devs))
     = get_audio_devices loads os devs"
proof -
  have refresh: "get_audio_devices loads os (devices (get_audio_devices loads os devs))
     = get_audio_devices loads os devs"
  proof (cases rule: get_audio_devices_cases [of loads os])
    case fails
    then show ?thesis by (simp add: get_audio_devices_on_failure [of loads os])
  next
    case (parses out err v)
    then show ?thesis by (simp add: get_audio_devices_on_success [of os out err loads v])
  next
    case hangs
    then show ?thesis by (simp add: get_audio_devices_on_hang [of os])
  qed
  have again: "list_devices loads os (devices (list_devices loads os devs)) = r
     \<Longrightarrow> devices r = devices (list_devices loads os devs)
       \<and> outcome r = outcome (list_devices loads os devs)
       \<and> printed r = printed (list_devices loads os devs)" for r
  proof (cases "devs = []")
    case False
    assume "list_devices loads os (devices (list_devices loads os devs)) = r"
    with False show ?thesis
      by (auto simp: list_devices_cached devices_show_devices)
  next
    case True
    assume r: "list_devices loads os (devices (list_devices loads os devs)) = r"
    show ?thesis
    proof (cases rule: get_audio_devices_cases [of loads os])
      case hangs
      with True r show ?thesis
        by (auto simp: list_devices_def get_audio_devices_on_hang [of os])
    next
      case fails
      with True r show ?thesis
        by (auto simp: list_devices_def get_audio_devices_on_failure [of loads os]
            devices_show_devices show_devices_def split: prod.split option.split)
    next
      case (parses out err v)
      note g = get_audio_devices_on_success [of os out err loads v, OF parses]
      show ?thesis
      proof (cases "as_list v = []")
        case e: True
        with True r show ?thesis
          by (auto simp: list_devices_def g devices_show_devices)
      next
        case ne: False
        with True r show ?thesis
          by (auto simp: list_devices_def g devices_show_devices show_devices_def
              split: prod.split option.split)
      qed
    qed
  qed
  from again [OF refl] refresh show ?thesis by simp
qed

theorem list_devices_repeatable_witness:
  "devices (list_devices sample_loads (os_prints two_devices_text)
      (devices (list_devices sample_loads (os_prints two_devices_text) [])))
     = [speakers, headset False]"
  using list_devices_repeatable [of sample_loads "os_prints two_devices_text" "[]"]
  by (simp add: list_devices_def devices_show_devices
      get_audio_devices_on_success [of "os_prints two_devices_text" two_devices_text "[]"
        sample_loads "JList [speakers, headset False]"]
      os_prints_def sample_loads_def)

text \<open>
  C5. For a volume from 0 to 100, \<open>set_volume\<close> starts exactly one external process
  and does not print the range message. The script it runs carries \<open>volume / 100\<close>, a
  value from 0 to 1, both for the default endpoint and for a device index. This holds
  for every target, in particular for one that resolves.
\<close>

theorem set_volume_in_range_calls_once:
  assumes "0 \<le> volume" and "volume \<le> 100"
  shows "calls (set_volume os devs volume None) =
           [\<lparr>command = SetDefaultVolumeCmd (real_of_int volume / 100),
             timeout = None, check = True\<rparr>]
       \<and> calls (set_volume os devs volume (Some i)) =
           [\<lparr>command = SetIndexVolumeCmd i (real_of_int volume / 100),
             timeout = None, check = True\<rparr>]
       \<and> 0 \<le> real_of_int volume / 100 \<and> real_of_int volume / 100 \<le> 1
       \<and> MsgVolumeRange \<notin> set (printed (set_volume os devs volume device_index))"
proof -
  have "MsgVolumeRange \<notin> set (printed (set_volume os devs volume device_index))"
    using assms
    by (simp add: set_volume_def Let_def printed_set_volume_handler
        split: run_outcome.split sum.split)
  with assms show ?thesis
    by (simp add: calls_set_volume powershell_def volume_command_def)
qed

theorem set_volume_in_range_calls_once_witness:
  "calls (set_volume os_healthy [] 50 None) =
     [\<lparr>command = SetDefaultVolumeCmd (1 / 2), timeout = None, check = True\<rparr>]
   \<and> calls (set_volume os_healthy [speakers] 50 (Some 0)) =
     [\<lparr>command = SetIndexVolumeCmd 0 (1 / 2), timeout = None, check = True\<rparr>]
   \<and> MsgVolumeRange \<notin> set (printed (set_volume os_healthy [speakers] 50 (Some 0)))"
  using set_volume_in_range_calls_once [of 50 os_healthy "[]" 0 "Some 0"]
    set_volume_in_range_calls_once [of 50 os_healthy "[speakers]" 0 "Some 0"]
  by simp

text \<open>
  C2 as stated fails: \<open>set_volume\<close> does not compare the index with the stored list
  before it starts the process. With one stored device and index 5 the script for
  index 5 is run and the call returns \<open>True\<close>.
\<close>

theorem set_volume_unknown_index_counterexample:
  "outcome (set_volume os_healthy [speakers] 50 (Some 5)) = Returned True
   \<and> calls (set_volume os_healthy [speakers] 50 (Some 5)) =
       [\<lparr>command = SetIndexVolumeCmd 5 (1 / 2), timeout = None, check = True\<rparr>]"
  by (simp add: set_volume_def device_name_def volume_command_def powershell_def
      os_healthy_def)

text \<open>
  C2, as amended. For a volume from 0 to 100 and an index at or past the end of the
  stored list, \<open>set_volume\<close> starts exactly one process, the script for that index.
  When the script ends with return code 0 the call returns \<open>True\<close> and names the
  device \<open>Default Device\<close>; when it ends with another return code the call returns
  \<open>False\<close> and prints the script's error output.
\<close>

theorem set_volume_index_past_end:
  assumes "0 \<le> volume" and "volume \<le> 100" and "int (length devs) \<le> i"
  shows "calls (set_volume os devs volume (Some i)) =
           [\<lparr>command = SetIndexVolumeCmd i (real_of_int volume / 100),
             timeout = None, check = True\<rparr>]
       \<and> (os (SetIndexVolumeCmd i (real_of_int volume / 100)) = Exits 0 out err \<longrightarrow>
            outcome (set_volume os devs volume (Some i)) = Returned True
          \<and> printed (set_volume os devs volume (Some i)) =
              [MsgVolumeSet volume (JStr ''Default Device'')])
       \<and> (os (SetIndexVolumeCmd i (real_of_int volume / 100)) = Exits rc out err \<and> rc \<noteq> 0 \<longrightarrow>
            outcome (set_volume os devs volume (Some i)) = Returned False
          \<and> printed (set_volume os devs volume (Some i)) = [MsgErrorSetting err])"
  using assms
  by (simp add: calls_set_volume)
     (simp add: set_volume_def device_name_def volume_command_def powershell_def)

theorem set_volume_index_past_end_witness:
  "calls (set_volume os_healthy [speakers] 50 (Some 5)) =
     [\<lparr>command = SetIndexVolumeCmd 5 (1 / 2), timeout = None, check = True\<rparr>]
   \<and> printed (set_volume os_healthy [speakers] 50 (Some 5)) =
       [MsgVolumeSet 50 (JStr ''Default Device'')]
   \<and> outcome (set_volume os_rejecting [speakers] 50 (Some 5)) = Returned False
   \<and> printed (set_volume os_rejecting [speakers] 50 (Some 5)) =
       [MsgErrorSetting ''access denied'']"
  using set_volume_index_past_end [of 50 "[speakers]" 5 os_healthy "[]" "[]" 1]
    set_volume_index_past_end [of 50 "[speakers]" 5 os_rejecting "[]" "''access denied''" 1]
  by (simp add: os_healthy_def os_rejecting_def)

text \<open>
  C7. The confirmation should name \<open>Default Device\<close> when nothing was enumerated.
  With an empty stored list, index \<open>-1\<close> (the command line's \<open>-d 0\<close>) and a script
  that ends with return code 0, line 145 accepts the index because it is below the
  length, line 146 subscripts the empty list, and \<open>IndexError\<close> escapes: the volume
  script has run and no confirmation is printed.
\<close>

theorem set_volume_negative_index_raises:
  "outcome (set_volume os_healthy [] 50 (Some (- 1))) = Raised IndexError
   \<and> printed (set_volume os_healthy [] 50 (Some (- 1))) = []
   \<and> calls (set_volume os_healthy [] 50 (Some (- 1))) =
       [\<lparr>command = SetIndexVolumeCmd (- 1) (1 / 2), timeout = None, check = True\<rparr>]"
  by (simp add: set_volume_def device_name_def py_index_def volume_command_def
      powershell_def os_healthy_def)

text \<open>
  C9 as stated fails: the enumeration stores what the query reports and checks no flag.
  When the output lists two devices that are both marked as default, so does the stored
  list.
\<close>

theorem two_defaults_counterexample:
  "outcome (get_audio_devices sample_loads (os_prints two_defaults_text) []) = Returned True
   \<and> default_count (devices (get_audio_devices sample_loads (os_prints two_defaults_text) [])) = 2"
  by (simp add: get_audio_devices_def powershell_def os_prints_def json_loads_def
      sample_loads_def two_defaults_text_def two_devices_text_def one_device_text_def
      default_count_def is_default_def default_flag_def speakers_def headset_def)

text \<open>
  C9, as amended. The enumeration keeps the default flags as the query reports them: a
  reported list is stored with as many default devices as it has, so with at most one
  when the report has at most one; a single reported object gives at most one; the
  fallback list has exactly one.
\<close>

theorem enumeration_keeps_default_flags:
  "(primary_path_fails loads (os ListPlaybackCmd) \<longrightarrow>
      default_count (devices (get_audio_devices loads os devs)) = 1)
 \<and> (os ListPlaybackCmd = Exits 0 out err \<and> loads out = Some (JList xs) \<longrightarrow>
      default_count (devices (get_audio_devices loads os devs)) = default_count xs)
 \<and> (os ListPlaybackCmd = Exits 0 out err \<and> loads out = Some (JObj kvs) \<longrightarrow>
      default_count (devices (get_audio_devices loads os devs)) \<le> 1)"
proof (intro conjI impI)
  assume "primary_path_fails loads (os ListPlaybackCmd)"
  then show "default_count (devices (get_audio_devices loads os devs)) = 1"
    by (simp add: get_audio_devices_on_failure [of loads os] default_count_fallback)
next
  assume "os ListPlaybackCmd = Exits 0 out err \<and> loads out = Some (JList xs)"
  then show "default_count (devices (get_audio_devices loads os devs)) = default_count xs"
    by (simp add: get_audio_devices_on_success [of os out err loads])
next
  assume "os ListPlaybackCmd = Exits 0 out err \<and> loads out = Some (JObj kvs)"
  then show "default_count (devices (get_audio_devices loads os devs)) \<le> 1"
    by (simp add: get_audio_devices_on_success [of os out err loads] default_count_def)
qed

theorem enumeration_keeps_default_flags_witness:
  "default_count (devices (get_audio_devices sample_loads os_absent [speakers])) = 1
   \<and> default_count (devices (get_audio_devices sample_loads (os_prints two_devices_text) [])) = 1
   \<and> default_count (devices (get_audio_devices sample_loads (os_prints one_device_text) [])) \<le> 1"
  using enumeration_keeps_default_flags [of sample_loads os_absent "[speakers]" "[]" "[]" "[]" "[]"]
    enumeration_keeps_default_flags [of sample_loads "os_prints two_devices_text" "[]"
      two_devices_text "[]" "[speakers, headset False]" "[]"]
    enumeration_keeps_default_flags [of sample_loads "os_prints one_device_text" "[]"
      one_device_text "[]" "[]" "[(''Index'', JInt 0), (''Name'', JStr ''Speakers''), (''Default'', JBool True)]"]
  by (simp add: os_absent_def os_prints_def sample_loads_def two_devices_text_def
      one_device_text_def speakers_def headset_def default_count_def is_default_def
      default_flag_def)

end
